theory Spec2Isabelle
  imports Complex_Main
begin

section \<open>Numbers, strings and messages\<close>

text \<open>
  The TypeScript sources compute with \<^verbatim>\<open>number\<close>. The embedding reads a
  \<^verbatim>\<open>number\<close> that holds an amount or an average as a \<^typ>\<open>real\<close> (exact arithmetic,
  the rounding of IEEE doubles is not modelled) and a \<^verbatim>\<open>number\<close> that only ever holds
  a score, a counter or a time stamp in milliseconds as an \<^typ>\<open>int\<close> or a \<^typ>\<open>nat\<close>.
  A field that the interface declares optional is an \<open>option\<close>. Strings are lists of
  8-bit characters; case conversion and the character classes of the regular expressions
  are modelled on ASCII.

  A message built by a template literal is kept as the list of its fragments: the literal
  text, and the interpolated numbers tagged with the formatting call of the source.
\<close>

datatype frag =
    S string          \<comment> \<open>literal text or an interpolated string\<close>
  | Fixed2 real       \<comment> \<open>\<^verbatim>\<open>x.toFixed(2)\<close>\<close>
  | Idx nat           \<comment> \<open>an interpolated integer such as \<^verbatim>\<open>index + 1\<close>\<close>
  | Rounded int       \<comment> \<open>\<^verbatim>\<open>Math.round(x)\<close> interpolated\<close>
  | LocaleIN real     \<comment> \<open>\<^verbatim>\<open>x.toLocaleString('en-IN')\<close>\<close>

type_synonym msg = "frag list"

definition rupee :: string where
  \<comment> \<open>the rupee sign U+20B9, as its three UTF-8 bytes\<close>
  "rupee = [CHR 0xE2, CHR 0x82, CHR 0xB9]"

definition mathRound :: "real \<Rightarrow> int" where
  \<comment> \<open>\<^verbatim>\<open>Math.round\<close>: nearest integer, a tie goes up\<close>
  "mathRound x = \<lfloor>x + 1 / 2\<rfloor>"

definition orZero :: "real option \<Rightarrow> real" where
  \<comment> \<open>\<^verbatim>\<open>x || 0\<close> on an optional number\<close>
  "orZero x = (case x of None \<Rightarrow> 0 | Some v \<Rightarrow> (if v = 0 then 0 else v))"

definition digitChars :: string where
  "digitChars = ''0123456789''"

definition upperChars :: string where
  "upperChars = ''ABCDEFGHIJKLMNOPQRSTUVWXYZ''"

definition lowerChars :: string where
  "lowerChars = ''abcdefghijklmnopqrstuvwxyz''"

definition isDigit :: "char \<Rightarrow> bool" where
  "isDigit c = (c \<in> set digitChars)"

definition isUpper :: "char \<Rightarrow> bool" where
  "isUpper c = (c \<in> set upperChars)"

definition isLower :: "char \<Rightarrow> bool" where
  "isLower c = (c \<in> set lowerChars)"

definition isSpace :: "char \<Rightarrow> bool" where
  \<comment> \<open>the ASCII members of the class \<^verbatim>\<open>\s\<close>: tab, line feed, vertical tab, form feed,
      carriage return, space\<close>
  "isSpace c = (c \<in> set [CHR 0x09, CHR 0x0A, CHR 0x0B, CHR 0x0C, CHR 0x0D, CHR 0x20])"

definition toUpperCase :: "string \<Rightarrow> string" where
  "toUpperCase s =
     map (\<lambda>c. case map_of (zip lowerChars upperChars) c of Some u \<Rightarrow> u | None \<Rightarrow> c) s"

definition toLowerCase :: "string \<Rightarrow> string" where
  "toLowerCase s =
     map (\<lambda>c. case map_of (zip upperChars lowerChars) c of Some l \<Rightarrow> l | None \<Rightarrow> c) s"

definition matchClasses :: "(char \<Rightarrow> bool) list \<Rightarrow> string \<Rightarrow> bool" where
  \<comment> \<open>an anchored regular expression that is a fixed sequence of character classes\<close>
  "matchClasses cs s = (length s = length cs \<and> list_all (\<lambda>(p, c). p c) (zip cs s))"

section \<open>Extracted invoices and validation results (ocrService)\<close>

record item =
  name :: string
  hsnCode :: "string option"
  quantity :: real
  unitPrice :: real
  gstRate :: real
  amount :: real

record extractedInvoiceData =
  invoiceNumber :: string
  invoiceDate :: string
  supplierName :: string
  supplierGSTIN :: "string option"
  supplierAddress :: "string option"
  subtotal :: real
  cgst :: "real option"
  sgst :: "real option"
  igst :: "real option"
  totalAmount :: real
  items :: "item list"
  confidence :: real
  rawText :: "string option"

record fieldScores =
  fcInvoiceNumber :: int
  fcAmounts :: int
  fcItems :: int
  fcGstin :: int

record validationResult =
  valid :: bool
  errors :: "msg list"
  warnings :: "msg list"
  suggestions :: "msg list"
  canAutoApprove :: bool
  confidenceScore :: int
  fieldConfidence :: fieldScores

text \<open>
  What \<^verbatim>\<open>validateInvoiceData\<close> reads besides its argument: the date parser of the
  runtime (\<^verbatim>\<open>new Date(s).getTime()\<close>, \<open>None\<close> for an invalid date), the clock
  (\<^verbatim>\<open>today\<close>, and \<^verbatim>\<open>oneYearAgo\<close> as the source derives it from a second clock
  read with \<^verbatim>\<open>setFullYear\<close>), and the environment variable
  \<^verbatim>\<open>COMPANY_STATE_CODE\<close>.
\<close>

record environment =
  parseDate :: "string \<Rightarrow> int option"
  today :: int
  oneYearAgo :: int
  companyStateCode :: "string option"

subsection \<open>GSTIN format (gstValidation)\<close>

definition STATE_CODES :: "(string \<times> string) list" where
  "STATE_CODES =
    [(''01'', ''Jammu and Kashmir''), (''02'', ''Himachal Pradesh''), (''03'', ''Punjab''),
     (''04'', ''Chandigarh''), (''05'', ''Uttarakhand''), (''06'', ''Haryana''),
     (''07'', ''Delhi''), (''08'', ''Rajasthan''), (''09'', ''Uttar Pradesh''),
     (''10'', ''Bihar''), (''11'', ''Sikkim''), (''12'', ''Arunachal Pradesh''),
     (''13'', ''Nagaland''), (''14'', ''Manipur''), (''15'', ''Mizoram''),
     (''16'', ''Tripura''), (''17'', ''Meghalaya''), (''18'', ''Assam''),
     (''19'', ''West Bengal''), (''20'', ''Jharkhand''), (''21'', ''Odisha''),
     (''22'', ''Chhattisgarh''), (''23'', ''Madhya Pradesh''), (''24'', ''Gujarat''),
     (''25'', ''Daman and Diu''), (''26'', ''Dadra and Nagar Haveli''),
     (''27'', ''Maharashtra''), (''28'', ''Andhra Pradesh (Old)''), (''29'', ''Karnataka''),
     (''30'', ''Goa''), (''31'', ''Lakshadweep''), (''32'', ''Kerala''),
     (''33'', ''Tamil Nadu''), (''34'', ''Puducherry''),
     (''35'', ''Andaman and Nicobar Islands''), (''36'', ''Telangana''),
     (''37'', ''Andhra Pradesh''), (''38'', ''Ladakh'')]"

record gstinDetails =
  stateCode :: string
  stateName :: string
  pan :: string
  entityNumber :: string
  checksum :: string

record gstinValidation =
  gvValid :: bool
  gvError :: "string option"
  gvDetails :: "gstinDetails option"

definition gstinInvalid :: "string \<Rightarrow> gstinValidation" where
  "gstinInvalid e = \<lparr>gvValid = False, gvError = Some e, gvDetails = None\<rparr>"

definition gstinRegex :: "string \<Rightarrow> bool" where
  \<comment> \<open>\<^verbatim>\<open>/^[0-9]{2}[A-Z]{5}[0-9]{4}[A-Z]{1}[1-9A-Z]{1}Z[0-9A-Z]{1}$/\<close>\<close>
  "gstinRegex s =
     matchClasses
       (replicate 2 isDigit @ replicate 5 isUpper @ replicate 4 isDigit @
        [isUpper, (\<lambda>c. (isDigit c \<and> c \<noteq> CHR ''0'') \<or> isUpper c), (\<lambda>c. c = CHR ''Z''),
         (\<lambda>c. isDigit c \<or> isUpper c)]) s"

definition panRegex :: "string \<Rightarrow> bool" where
  \<comment> \<open>\<^verbatim>\<open>/^[A-Z]{5}[0-9]{4}[A-Z]{1}$/\<close>\<close>
  "panRegex s = matchClasses (replicate 5 isUpper @ replicate 4 isDigit @ [isUpper]) s"

definition validateGSTINFormat :: "string \<Rightarrow> gstinValidation" where
  "validateGSTINFormat gstin =
    (if gstin = [] then gstinInvalid ''GSTIN is required''
     else
       let cleanGSTIN = toUpperCase (filter (\<lambda>c. \<not> isSpace c) gstin) in
       if length cleanGSTIN \<noteq> 15 then gstinInvalid ''GSTIN must be 15 characters long''
       else if \<not> gstinRegex cleanGSTIN then gstinInvalid ''Invalid GSTIN format''
       else
         let sc = take 2 cleanGSTIN;
             pn = take 10 (drop 2 cleanGSTIN);
             en = take 1 (drop 12 cleanGSTIN);
             cs = take 1 (drop 14 cleanGSTIN)
         in case map_of STATE_CODES sc of
              None \<Rightarrow> gstinInvalid (''Invalid state code: '' @ sc)
            | Some sn \<Rightarrow>
                if sn = [] then gstinInvalid (''Invalid state code: '' @ sc)
                else if \<not> panRegex pn then gstinInvalid ''Invalid PAN in GSTIN''
                else \<lparr>gvValid = True, gvError = None,
                      gvDetails = Some \<lparr>stateCode = sc, stateName = sn, pan = pn,
                                         entityNumber = en, checksum = cs\<rparr>\<rparr>)"

subsection \<open>validateInvoiceData\<close>

record vacc =
  errs :: "msg list"
  warns :: "msg list"
  suggs :: "msg list"
  fc :: fieldScores

definition pushError :: "msg \<Rightarrow> vacc \<Rightarrow> vacc" where
  "pushError m a = a\<lparr>errs := errs a @ [m]\<rparr>"

definition pushWarning :: "msg \<Rightarrow> vacc \<Rightarrow> vacc" where
  "pushWarning m a = a\<lparr>warns := warns a @ [m]\<rparr>"

definition pushSuggestion :: "msg \<Rightarrow> vacc \<Rightarrow> vacc" where
  "pushSuggestion m a = a\<lparr>suggs := suggs a @ [m]\<rparr>"

definition initialAcc :: vacc where
  "initialAcc =
     \<lparr>errs = [], warns = [], suggs = [],
      fc = \<lparr>fcInvoiceNumber = 0, fcAmounts = 0, fcItems = 0, fcGstin = 0\<rparr>\<rparr>"

definition invoiceNumberRegex :: "string \<Rightarrow> bool" where
  \<comment> \<open>\<^verbatim>\<open>/^[A-Z0-9\-\/]{3,30}$/i\<close>\<close>
  "invoiceNumberRegex s =
     (3 \<le> length s \<and> length s \<le> 30 \<and>
      list_all (\<lambda>c. isUpper c \<or> isLower c \<or> isDigit c \<or> c = CHR ''-'' \<or> c = CHR ''/'') s)"

definition checkInvoiceNumber :: "extractedInvoiceData \<Rightarrow> vacc \<Rightarrow> vacc" where
  "checkInvoiceNumber d a =
    (if invoiceNumber d = [] then
       (pushError [S ''Invoice number is missing''] a)\<lparr>fc := (fc a)\<lparr>fcInvoiceNumber := 0\<rparr>\<rparr>
     else if invoiceNumberRegex (invoiceNumber d) then
       a\<lparr>fc := (fc a)\<lparr>fcInvoiceNumber := 95\<rparr>\<rparr>
     else
       pushWarning [S ''Invoice number format is unusual - please verify'']
         (a\<lparr>fc := (fc a)\<lparr>fcInvoiceNumber := 60\<rparr>\<rparr>))"

definition checkDate :: "environment \<Rightarrow> extractedInvoiceData \<Rightarrow> vacc \<Rightarrow> vacc" where
  "checkDate env d a =
    (if invoiceDate d = [] then pushError [S ''Invoice date is missing''] a
     else case parseDate env (invoiceDate d) of
        None \<Rightarrow> pushError [S ''Invalid invoice date format''] a
      | Some t \<Rightarrow>
          if t > today env then pushWarning [S ''Invoice date is in the future''] a
          else if t < oneYearAgo env then pushWarning [S ''Invoice is more than 1 year old''] a
          else a)"

definition checkSupplier :: "extractedInvoiceData \<Rightarrow> vacc \<Rightarrow> vacc" where
  "checkSupplier d a =
    (if supplierName d = [] then pushError [S ''Supplier name is missing''] a
     else if length (supplierName d) < 3 then pushWarning [S ''Supplier name seems too short''] a
     else a)"

definition calculatedSubtotal :: "extractedInvoiceData \<Rightarrow> real" where
  \<comment> \<open>\<^verbatim>\<open>data.items.reduce((sum, item) => sum + (item.amount || 0), 0)\<close>\<close>
  "calculatedSubtotal d = foldl (\<lambda>sum i. sum + orZero (Some (amount i))) 0 (items d)"

definition gstTotal :: "extractedInvoiceData \<Rightarrow> real" where
  "gstTotal d = orZero (cgst d) + orZero (sgst d) + orZero (igst d)"

definition calculatedTotal :: "extractedInvoiceData \<Rightarrow> real" where
  "calculatedTotal d = calculatedSubtotal d + gstTotal d"

definition subtotalDiff :: "extractedInvoiceData \<Rightarrow> real" where
  "subtotalDiff d = \<bar>calculatedSubtotal d - subtotal d\<bar>"

definition totalDiff :: "extractedInvoiceData \<Rightarrow> real" where
  "totalDiff d = \<bar>calculatedTotal d - totalAmount d\<bar>"

definition subtotalWarning :: "extractedInvoiceData \<Rightarrow> msg" where
  "subtotalWarning d =
     [S (''Subtotal mismatch: Calculated '' @ rupee), Fixed2 (calculatedSubtotal d),
      S ('', Found '' @ rupee), Fixed2 (subtotal d)]"

definition subtotalError :: "extractedInvoiceData \<Rightarrow> msg" where
  "subtotalError d =
     [S (''Significant subtotal mismatch ('' @ rupee), Fixed2 (subtotalDiff d),
      S '' difference)'']"

definition totalWarning :: "extractedInvoiceData \<Rightarrow> msg" where
  "totalWarning d =
     [S (''Total amount mismatch: Calculated '' @ rupee), Fixed2 (calculatedTotal d),
      S ('', Found '' @ rupee), Fixed2 (totalAmount d)]"

definition checkAmounts :: "extractedInvoiceData \<Rightarrow> vacc \<Rightarrow> vacc" where
  "checkAmounts d a =
    (if totalAmount d = 0 \<or> totalAmount d \<le> 0 then
       (pushError [S ''Invalid total amount''] a)\<lparr>fc := (fc a)\<lparr>fcAmounts := 0\<rparr>\<rparr>
     else
       let a1 =
            (if subtotalDiff d \<le> 1 then a\<lparr>fc := (fc a)\<lparr>fcAmounts := 95\<rparr>\<rparr>
             else if subtotalDiff d \<le> 10 then
               pushWarning (subtotalWarning d) (a\<lparr>fc := (fc a)\<lparr>fcAmounts := 75\<rparr>\<rparr>)
             else
               pushError (subtotalError d) (a\<lparr>fc := (fc a)\<lparr>fcAmounts := 40\<rparr>\<rparr>))
       in if totalDiff d \<le> 1 then a1\<lparr>fc := (fc a1)\<lparr>fcAmounts := max (fcAmounts (fc a1)) 90\<rparr>\<rparr>
          else if totalDiff d > 10 then pushWarning (totalWarning d) a1
          else a1)"

text \<open>
  The body of the \<^verbatim>\<open>forEach\<close> over the line items: the accumulator and the running
  \<^verbatim>\<open>itemScore\<close> are threaded through, \<open>index\<close> is the 0-based position.
\<close>

definition checkItem :: "nat \<Rightarrow> item \<Rightarrow> vacc \<times> int \<Rightarrow> vacc \<times> int" where
  "checkItem index i st =
    (let st1 = (if name i = [] then
                  (pushError [S ''Item '', Idx (index + 1), S '': Name is missing''] (fst st),
                   snd st - 20)
                else st);
         st2 = (if quantity i = 0 \<or> quantity i \<le> 0 then
                  (pushError [S ''Item '', Idx (index + 1), S '': Invalid quantity''] (fst st1),
                   snd st1 - 15)
                else st1);
         st3 = (if unitPrice i = 0 \<or> unitPrice i < 0 then
                  (pushError [S ''Item '', Idx (index + 1), S '': Invalid unit price''] (fst st2),
                   snd st2 - 15)
                else st2);
         st4 = (if hsnCode i = None \<or> hsnCode i = Some [] then
                  (pushWarning [S ''Item '', Idx (index + 1), S '': HSN code missing''] (fst st3),
                   snd st3 - 5)
                else st3);
         expectedAmount = quantity i * unitPrice i
     in if \<bar>expectedAmount - amount i\<bar> > 1 then
          (pushWarning [S ''Item '', Idx (index + 1), S '': Amount calculation mismatch'']
             (fst st4), snd st4 - 10)
        else st4)"

fun checkItemsFrom :: "nat \<Rightarrow> item list \<Rightarrow> vacc \<times> int \<Rightarrow> vacc \<times> int" where
  "checkItemsFrom index [] st = st"
| "checkItemsFrom index (i # is) st = checkItemsFrom (index + 1) is (checkItem index i st)"

definition checkItems :: "extractedInvoiceData \<Rightarrow> vacc \<Rightarrow> vacc" where
  "checkItems d a =
    (if items d = [] then
       (pushError [S ''No line items found''] a)\<lparr>fc := (fc a)\<lparr>fcItems := 0\<rparr>\<rparr>
     else
       let (a1, itemScore) = checkItemsFrom 0 (items d) (a, 100)
       in a1\<lparr>fc := (fc a1)\<lparr>fcItems := max 0 itemScore\<rparr>\<rparr>)"

definition hasGST :: "extractedInvoiceData \<Rightarrow> bool" where
  "hasGST d = (orZero (cgst d) + orZero (sgst d) + orZero (igst d) > 0)"

definition hasCGSTSGST :: "extractedInvoiceData \<Rightarrow> bool" where
  "hasCGSTSGST d = (orZero (cgst d) > 0 \<or> orZero (sgst d) > 0)"

definition hasIGST :: "extractedInvoiceData \<Rightarrow> bool" where
  "hasIGST d = (orZero (igst d) > 0)"

definition checkGST :: "extractedInvoiceData \<Rightarrow> vacc \<Rightarrow> vacc" where
  "checkGST d a =
    (let a1 = (if \<not> hasGST d then
                 pushSuggestion
                   [S ''If this is a GST invoice, check if GST amounts were clearly visible in the image'']
                   (pushWarning [S ''No GST amount found - verify if this is a GST invoice''] a)
               else a)
     in if hasCGSTSGST d \<and> hasIGST d then
          pushSuggestion [S ''For intra-state: Use CGST+SGST. For inter-state: Use IGST only'']
            (pushWarning [S ''Both CGST/SGST and IGST present - should be one or the other''] a1)
        else a1)"

definition companyState :: "environment \<Rightarrow> string" where
  \<comment> \<open>\<^verbatim>\<open>process.env.COMPANY_STATE_CODE || '29'\<close>\<close>
  "companyState env =
     (case companyStateCode env of None \<Rightarrow> ''29'' | Some c \<Rightarrow> (if c = [] then ''29'' else c))"

definition gstinMissing :: "vacc \<Rightarrow> vacc" where
  "gstinMissing a =
     pushSuggestion [S ''GSTIN is required for GST compliance - contact supplier for details'']
       (pushWarning [S ''Supplier GSTIN not found''] (a\<lparr>fc := (fc a)\<lparr>fcGstin := 0\<rparr>\<rparr>))"

definition checkGSTIN :: "environment \<Rightarrow> extractedInvoiceData \<Rightarrow> vacc \<Rightarrow> vacc" where
  "checkGSTIN env d a =
    (case supplierGSTIN d of
       None \<Rightarrow> gstinMissing a
     | Some g \<Rightarrow>
       if g = [] then gstinMissing a
       else
         let gv = validateGSTINFormat g in
         if gvValid gv then
           (let a1 = a\<lparr>fc := (fc a)\<lparr>fcGstin := 95\<rparr>\<rparr> in
            case gvDetails gv of
              None \<Rightarrow> a1
            | Some det \<Rightarrow>
                let isSameState = (companyState env = stateCode det) in
                if isSameState \<and> hasIGST d \<and> \<not> hasCGSTSGST d then
                  pushWarning [S ''Intra-state transaction should use CGST+SGST, not IGST''] a1
                else if \<not> isSameState \<and> hasCGSTSGST d \<and> \<not> hasIGST d then
                  pushWarning [S ''Inter-state transaction should use IGST, not CGST+SGST''] a1
                else a1)
         else
           pushSuggestion [S ''Verify GSTIN manually or request corrected invoice from supplier'']
             (pushWarning
                [S ''Invalid GSTIN format: '',
                 S (case gvError gv of None \<Rightarrow> ''undefined'' | Some e \<Rightarrow> e)]
                (a\<lparr>fc := (fc a)\<lparr>fcGstin := 30\<rparr>\<rparr>)))"

definition overallConfidence :: "fieldScores \<Rightarrow> int" where
  "overallConfidence f =
     mathRound (real_of_int (fcInvoiceNumber f) * 0.2 + real_of_int (fcAmounts f) * 0.35 +
                real_of_int (fcItems f) * 0.3 + real_of_int (fcGstin f) * 0.15)"

definition finish :: "extractedInvoiceData \<Rightarrow> vacc \<Rightarrow> validationResult" where
  "finish d a =
    (let oc = overallConfidence (fc a);
         approve = (length (errs a) = 0 \<and> oc \<ge> 85 \<and> confidence d \<ge> 85 \<and>
                    fcAmounts (fc a) \<ge> 90 \<and> fcItems (fc a) \<ge> 80);
         a1 = (if approve then
                 pushSuggestion [S ''This invoice meets criteria for auto-approval''] a
               else if length (errs a) = 0 then
                 pushSuggestion [S ''Manual review recommended before approval''] a
               else a)
     in \<lparr>valid = (length (errs a1) = 0), errors = errs a1, warnings = warns a1,
         suggestions = suggs a1, canAutoApprove = approve, confidenceScore = oc,
         fieldConfidence = fc a1\<rparr>)"

definition validateInvoiceData :: "environment \<Rightarrow> extractedInvoiceData \<Rightarrow> validationResult" where
  "validateInvoiceData env d =
     finish d
       (checkGSTIN env d
         (checkGST d
           (checkItems d
             (checkAmounts d
               (checkSupplier d
                 (checkDate env d
                   (checkInvoiceNumber d initialAcc)))))))"

section \<open>Supplier templates (InvoiceTemplateService)\<close>

datatype gstKind = CGST_SGST | IGST | BOTH

record templatePatterns =
  invoiceNumberFormat :: "string option"
  dateFormats :: "string list"
  commonHSNCodes :: "string list"
  commonItemNames :: "string list"
  avgItemCount :: real
  avgTotalAmount :: real
  gstType :: gstKind

record templateStatistics =
  totalInvoicesProcessed :: nat
  lastUpdated :: int
  accuracyRate :: real

record invoiceTemplate =
  supplierId :: string
  templateSupplierName :: string
  patterns :: templatePatterns
  statistics :: templateStatistics

text \<open>
  The template of a supplier is kept in the Redis cache and in the supplier's row of the
  database. Both are modelled as finite maps from the supplier id; calls to either
  service are taken to succeed (the source logs a failure and carries on).
\<close>

record templateStore =
  cache :: "string \<rightharpoonup> invoiceTemplate"
  db :: "string \<rightharpoonup> invoiceTemplate"


definition getTemplate :: "templateStore \<Rightarrow> string \<Rightarrow> invoiceTemplate option \<times> templateStore" where
  "getTemplate st sid =
    (case cache st sid of
       Some t \<Rightarrow> (Some t, st)
     | None \<Rightarrow>
        (case db st sid of
           Some t \<Rightarrow> (Some t, st\<lparr>cache := (cache st)(sid \<mapsto> t)\<rparr>)
         | None \<Rightarrow> (None, st)))"

definition saveTemplate :: "templateStore \<Rightarrow> string \<Rightarrow> invoiceTemplate \<Rightarrow> templateStore" where
  "saveTemplate st sid t = st\<lparr>db := (db st)(sid \<mapsto> t), cache := (cache st)(sid \<mapsto> t)\<rparr>"

subsection \<open>Helpers of the service\<close>


text \<open>The decimal digits of an integer that is not negative.\<close>

function showNat :: "int \<Rightarrow> string" where
  "showNat n =
     (if n < 10 then [digitChars ! nat n]
      else showNat (n div 10) @ [digitChars ! nat (n mod 10)])"
  by pat_completeness auto
termination
  by (relation "measure nat") auto

declare showNat.simps [simp del]







definition detectGSTType :: "extractedInvoiceData \<Rightarrow> gstKind" where
  "detectGSTType d =
    (let hasCS = (orZero (cgst d) > 0 \<or> orZero (sgst d) > 0);
         hasI = (orZero (igst d) > 0)
     in if hasCS \<and> hasI then BOTH
        else if hasCS then CGST_SGST
        else if hasI then IGST
        else CGST_SGST)"








subsection \<open>learnFromInvoice\<close>

definition hsnCodesOf :: "extractedInvoiceData \<Rightarrow> string list" where
  \<comment> \<open>\<^verbatim>\<open>invoiceData.items.map(i => i.hsnCode).filter(Boolean)\<close>\<close>
  "hsnCodesOf d = concat (map (\<lambda>i. case hsnCode i of None \<Rightarrow> [] | Some h \<Rightarrow> (if h = [] then [] else [h])) (items d))"





subsection \<open>validateAgainstTemplate\<close>

record matchReport =
  matches :: bool
  anomalies :: "msg list"
  matchSuggestions :: "msg list"
  matchConfidence :: int

datatype matchError = SyntaxError

record macc =
  anoms :: "msg list"
  msuggs :: "msg list"
  matchScore :: int

definition anomaly :: "msg \<Rightarrow> int \<Rightarrow> macc \<Rightarrow> macc" where
  \<comment> \<open>\<^verbatim>\<open>anomalies.push(m); matchScore -= k\<close>\<close>
  "anomaly m k a = a\<lparr>anoms := anoms a @ [m], matchScore := matchScore a - k\<rparr>"

definition suggest :: "msg \<Rightarrow> macc \<Rightarrow> macc" where
  "suggest m a = a\<lparr>msuggs := msuggs a @ [m]\<rparr>"

fun isPrefixOf :: "string \<Rightarrow> string \<Rightarrow> bool" where
  "isPrefixOf [] s = True"
| "isPrefixOf (c # cs) [] = False"
| "isPrefixOf (c # cs) (x # xs) = (c = x \<and> isPrefixOf cs xs)"

fun includesStr :: "string \<Rightarrow> string \<Rightarrow> bool" where
  \<comment> \<open>\<^verbatim>\<open>s.includes(sub)\<close>\<close>
  "includesStr [] sub = (sub = [])"
| "includesStr (x # xs) sub = (isPrefixOf sub (x # xs) \<or> includesStr xs sub)"

definition showGstKind :: "gstKind \<Rightarrow> string" where
  "showGstKind g = (case g of CGST_SGST \<Rightarrow> ''CGST_SGST'' | IGST \<Rightarrow> ''IGST'' | BOTH \<Rightarrow> ''BOTH'')"

definition checkItemCount :: "invoiceTemplate \<Rightarrow> extractedInvoiceData \<Rightarrow> macc \<Rightarrow> macc" where
  "checkItemCount t d a =
    (let itemCountDiff = \<bar>real (length (items d)) - avgItemCount (patterns t)\<bar>
     in if itemCountDiff > avgItemCount (patterns t) * 0.5 then
          anomaly [S ''Unusual item count: '', Idx (length (items d)), S '' items (avg: '',
                   Rounded (mathRound (avgItemCount (patterns t))), S '')''] 5 a
        else a)"

text \<open>
  The percentage is a quotient of doubles: dividing by an average of zero gives
  \<^verbatim>\<open>Infinity\<close> when the difference is positive and \<^verbatim>\<open>NaN\<close> when it is zero, and only
  the former is greater than 50.
\<close>

definition amountPercentOver50 :: "invoiceTemplate \<Rightarrow> extractedInvoiceData \<Rightarrow> bool" where
  "amountPercentOver50 t d =
    (let amountDiff = \<bar>totalAmount d - avgTotalAmount (patterns t)\<bar>
     in if avgTotalAmount (patterns t) = 0 then amountDiff > 0
        else amountDiff / avgTotalAmount (patterns t) * 100 > 50)"

definition checkTotalAmount :: "invoiceTemplate \<Rightarrow> extractedInvoiceData \<Rightarrow> macc \<Rightarrow> macc" where
  "checkTotalAmount t d a =
    (if amountPercentOver50 t d then
       suggest [S ''Verify the total amount - it differs significantly from past invoices'']
         (anomaly [S (''Unusual total amount: '' @ rupee), LocaleIN (totalAmount d),
                   S ('' (avg: '' @ rupee), LocaleIN (avgTotalAmount (patterns t)), S '')''] 15 a)
     else a)"

definition checkGSTType :: "invoiceTemplate \<Rightarrow> extractedInvoiceData \<Rightarrow> macc \<Rightarrow> macc" where
  "checkGSTType t d a =
    (let currentGSTType = detectGSTType d
     in if gstType (patterns t) \<noteq> BOTH \<and> currentGSTType \<noteq> gstType (patterns t) then
          suggest [S ''Verify GST type - supplier location may have changed'']
            (anomaly [S ''GST type changed: Expected '', S (showGstKind (gstType (patterns t))),
                      S '', found '', S (showGstKind currentGSTType)] 10 a)
        else a)"

definition checkHSNCodes :: "invoiceTemplate \<Rightarrow> extractedInvoiceData \<Rightarrow> macc \<Rightarrow> macc" where
  "checkHSNCodes t d a =
    (let invoiceHSNCodes = hsnCodesOf d;
         knownHSNs = commonHSNCodes (patterns t);
         hasCommonHSN = list_ex (\<lambda>code. code \<in> set knownHSNs) invoiceHSNCodes
     in if length knownHSNs > 0 \<and> \<not> hasCommonHSN then
          suggest [S ''This may be a new product category from this supplier'']
            (anomaly [S ''None of the HSN codes match previously seen codes from this supplier''] 10 a)
        else a)"

definition checkItemNames :: "invoiceTemplate \<Rightarrow> extractedInvoiceData \<Rightarrow> macc \<Rightarrow> macc" where
  "checkItemNames t d a =
    (let invoiceItemNames = map (\<lambda>i. toLowerCase (name i)) (items d);
         knownItems = map toLowerCase (commonItemNames (patterns t));
         hasCommonItem =
           list_ex (\<lambda>n. list_ex (\<lambda>known. includesStr n known \<or> includesStr known n) knownItems)
             invoiceItemNames
     in if length knownItems > 0 \<and> \<not> hasCommonItem then
          anomaly [S ''Item names do not match typical products from this supplier''] 15 a
        else a)"

definition templateSuggestions :: "invoiceTemplate \<Rightarrow> macc \<Rightarrow> macc" where
  "templateSuggestions t a =
    (let a1 = (if accuracyRate (statistics t) < 70 then
                 suggest [S ''This supplier has '', Rounded (mathRound (accuracyRate (statistics t))),
                          S ''% OCR accuracy - review carefully''] a
               else a)
     in if length (anoms a1) = 0 then
          suggest [S ''Invoice matches expected patterns from this supplier''] a1
        else a1)"

text \<open>
  \<^verbatim>\<open>regexTest p s\<close> stands for \<^verbatim>\<open>new RegExp(p).test(s)\<close> of the runtime; it is
  \<open>None\<close> when \<open>p\<close> is not a regular expression, where the constructor throws.
\<close>

definition checkNumberFormat ::
  "(string \<Rightarrow> string \<Rightarrow> bool option) \<Rightarrow> invoiceTemplate \<Rightarrow> extractedInvoiceData \<Rightarrow> macc \<Rightarrow> matchError + macc" where
  "checkNumberFormat regexTest t d a =
    (case invoiceNumberFormat (patterns t) of
       None \<Rightarrow> Inr a
     | Some f \<Rightarrow>
        if f = [] then Inr a
        else (case regexTest f (invoiceNumber d) of
                None \<Rightarrow> Inl SyntaxError
              | Some ok \<Rightarrow>
                  if \<not> ok then
                    Inr (anomaly [S ''Invoice number format differs from usual pattern''] 10 a)
                  else Inr a))"

definition matchChecks ::
  "(string \<Rightarrow> string \<Rightarrow> bool option) \<Rightarrow> invoiceTemplate \<Rightarrow> extractedInvoiceData \<Rightarrow> matchError + macc" where
  \<comment> \<open>the checks against an existing template, from the start score of 100\<close>
  "matchChecks regexTest t d =
    (case checkNumberFormat regexTest t d \<lparr>anoms = [], msuggs = [], matchScore = 100\<rparr> of
       Inl e \<Rightarrow> Inl e
     | Inr a \<Rightarrow>
         Inr (templateSuggestions t
               (checkItemNames t d
                 (checkHSNCodes t d
                   (checkGSTType t d
                     (checkTotalAmount t d
                       (checkItemCount t d a)))))))"

definition validateAgainstTemplate ::
  "(string \<Rightarrow> string \<Rightarrow> bool option) \<Rightarrow> templateStore \<Rightarrow> extractedInvoiceData \<Rightarrow> string \<Rightarrow>
     (matchError + matchReport) \<times> templateStore" where
  "validateAgainstTemplate regexTest st d sid =
    (case getTemplate st sid of
       (None, st1) \<Rightarrow>
         (Inr \<lparr>matches = True, anomalies = [],
               matchSuggestions =
                 [[S ''No template available for this supplier - this is the first invoice'']],
               matchConfidence = 50\<rparr>, st1)
     | (Some t, st1) \<Rightarrow>
         (case matchChecks regexTest t d of
            Inl e \<Rightarrow> (Inl e, st1)
          | Inr a \<Rightarrow>
              (Inr \<lparr>matches = (length (anoms a) = 0), anomalies = anoms a,
                    matchSuggestions = msuggs a,
                    matchConfidence = max 0 (min 100 (matchScore a))\<rparr>, st1)))"

section \<open>The invoice queue (InvoiceQueue)\<close>

datatype jobStatus = PENDING | PROCESSING | COMPLETED | FAILED

record 'r queueJob =
  jobId :: string
  filePath :: string
  fileName :: string
  userId :: string
  status :: jobStatus
  progress :: int
  result :: "'r option"
  error :: "string option"
  createdAt :: int
  completedAt :: "int option"

text \<open>
  The state of the singleton queue, together with the log of the paths handed to
  \<^verbatim>\<open>deleteFile\<close>. A job is an object shared between the queue and the worker that
  runs it; the model addresses it by its position in \<open>queue\<close>.
\<close>

record 'r invoiceQueue =
  queue :: "'r queueJob list"
  processing :: bool
  activeJobs :: int
  deletedFiles :: "string list"

definition maxConcurrent :: int where
  "maxConcurrent = 3"

definition initialQueue :: "'r invoiceQueue" where
  "initialQueue = \<lparr>queue = [], processing = False, activeJobs = 0, deletedFiles = []\<rparr>"

definition sliceTo :: "'a list \<Rightarrow> int \<Rightarrow> 'a list" where
  \<comment> \<open>\<^verbatim>\<open>xs.slice(0, e)\<close>: a negative end counts from the end of the array\<close>
  "sliceTo xs e = (if e \<ge> 0 then take (nat e) xs else take (length xs - nat (- e)) xs)"

text \<open>
  An \<^verbatim>\<open>async\<close> function runs synchronously up to its first \<^verbatim>\<open>await\<close>.
  \<^verbatim>\<open>processJob\<close> reaches it at \<^verbatim>\<open>await processInvoice(...)\<close>, after it has
  claimed the job; what the call does until then is \<open>processJobStart\<close>.
\<close>

definition processJobStart :: "nat \<Rightarrow> 'r invoiceQueue \<Rightarrow> 'r invoiceQueue" where
  "processJobStart i q =
    (let q1 = q\<lparr>activeJobs := activeJobs q + 1\<rparr>;
         q2 = q1\<lparr>queue := (queue q1)[i := (queue q1 ! i)\<lparr>status := PROCESSING\<rparr>]\<rparr>;
         q3 = q2\<lparr>queue := (queue q2)[i := (queue q2 ! i)\<lparr>progress := 10\<rparr>]\<rparr>
     in q3\<lparr>queue := (queue q3)[i := (queue q3 ! i)\<lparr>progress := 20\<rparr>]\<rparr>)"

text \<open>
  \<^verbatim>\<open>processQueue\<close> up to its first \<^verbatim>\<open>await\<close>: either the loop is not entered, or
  no pending job fits the budget and it waits for the timer, or it has started
  \<^verbatim>\<open>processJob\<close> on the pending jobs that fit and waits for them to settle.
\<close>

definition processQueueStart :: "'r invoiceQueue \<Rightarrow> 'r invoiceQueue" where
  "processQueueStart q =
    (let q1 = q\<lparr>processing := True\<rparr> in
     if list_ex (\<lambda>j. status j = PENDING) (queue q1) \<or> activeJobs q1 > 0 then
       let pendingJobs =
             sliceTo (filter (\<lambda>i. status (queue q1 ! i) = PENDING) [0..<length (queue q1)])
                     (maxConcurrent - activeJobs q1)
       in if length pendingJobs = 0 then q1
          else foldl (\<lambda>s i. processJobStart i s) q1 pendingJobs
     else q1\<lparr>processing := False\<rparr>)"

text \<open>
  \<open>now\<close> is the value of \<^verbatim>\<open>Date.now()\<close>, \<open>rnd\<close> the suffix
  \<^verbatim>\<open>Math.random().toString(36).substring(7)\<close>, \<open>created\<close> the time of \<^verbatim>\<open>new Date()\<close>.
\<close>

definition addJob ::
  "int \<Rightarrow> string \<Rightarrow> int \<Rightarrow> string \<Rightarrow> string \<Rightarrow> string \<Rightarrow> 'r invoiceQueue \<Rightarrow> string \<times> 'r invoiceQueue" where
  "addJob now rnd created fPath fName uId q =
    (let jid = ''job_'' @ showNat now @ ''_'' @ rnd;
         job = \<lparr>jobId = jid, filePath = fPath, fileName = fName, userId = uId,
                status = PENDING, progress = 0, result = None, error = None,
                createdAt = created, completedAt = None\<rparr>;
         q1 = q\<lparr>queue := queue q @ [job]\<rparr>;
         q2 = (if \<not> processing q1 then processQueueStart q1 else q1)
     in (jid, q2))"

definition getJob :: "'r invoiceQueue \<Rightarrow> string \<Rightarrow> 'r queueJob option" where
  "getJob q jid = find (\<lambda>j. jobId j = jid) (queue q)"

definition findJobIndex :: "'r invoiceQueue \<Rightarrow> string \<Rightarrow> nat option" where
  \<comment> \<open>the position of the object that \<^verbatim>\<open>this.queue.find(j => j.id === jobId)\<close> returns\<close>
  "findJobIndex q jid = find (\<lambda>i. jobId (queue q ! i) = jid) [0..<length (queue q)]"

definition cancelJob :: "int \<Rightarrow> string \<Rightarrow> 'r invoiceQueue \<Rightarrow> bool \<times> 'r invoiceQueue" where
  "cancelJob now jid q =
    (case findJobIndex q jid of
       None \<Rightarrow> (False, q)
     | Some i \<Rightarrow>
        if status (queue q ! i) = PENDING then
          (let job = (queue q ! i)\<lparr>status := FAILED, error := Some ''Cancelled by user'',
                                    completedAt := Some now\<rparr>
           in (True, q\<lparr>queue := (queue q)[i := job],
                       deletedFiles := deletedFiles q @ [filePath job]\<rparr>))
        else (False, q))"

section \<open>Auxiliary notions and sample data\<close>


definition sameVerdict :: "vacc \<Rightarrow> vacc \<Rightarrow> bool" where
  \<comment> \<open>two accumulators that differ at most in their warnings\<close>
  "sameVerdict a b = (errs a = errs b \<and> suggs a = suggs b \<and> fc a = fc b)"

definition deduct :: "bool \<Rightarrow> (vacc \<Rightarrow> vacc) \<Rightarrow> int \<Rightarrow> vacc \<times> int \<Rightarrow> vacc \<times> int" where
  \<comment> \<open>one conditional of the loop body: push a message and lower the score\<close>
  "deduct c push k st = (if c then (push (fst st), snd st - k) else st)"

definition sampleEnv :: environment where
  "sampleEnv =
     \<lparr>parseDate = (\<lambda>s. if s = ''2025-06-01'' then Some 1748736000000 else None),
      today = 1750000000000, oneYearAgo = 1718464000000, companyStateCode = None\<rparr>"

definition laterEnv :: environment where
  \<comment> \<open>the same runtime two years later\<close>
  "laterEnv = sampleEnv\<lparr>today := 1813000000000, oneYearAgo := 1781464000000\<rparr>"

definition sampleItem :: item where
  "sampleItem = \<lparr>name = ''Widget'', hsnCode = Some ''8471'', quantity = 10, unitPrice = 100,
                 gstRate = 18, amount = 1000\<rparr>"

definition sampleInvoice :: extractedInvoiceData where
  "sampleInvoice =
     \<lparr>invoiceNumber = ''INV-2025-001'', invoiceDate = ''2025-06-01'',
      supplierName = ''Acme Traders'', supplierGSTIN = Some ''29AAAAA0000A1Z5'',
      supplierAddress = None, subtotal = 1000, cgst = Some 90, sgst = Some 90, igst = None,
      totalAmount = 1180, items = [sampleItem], confidence = 90, rawText = None\<rparr>"



definition noItemsInvoice :: extractedInvoiceData where
  "noItemsInvoice = sampleInvoice\<lparr>items := []\<rparr>"

definition interStateInvoice :: extractedInvoiceData where
  \<comment> \<open>a supplier registered in Maharashtra (27) charging CGST and SGST\<close>
  "interStateInvoice = sampleInvoice\<lparr>supplierGSTIN := Some ''27AAAAA0000A1Z5''\<rparr>"

definition sampleTemplate :: invoiceTemplate where
  "sampleTemplate =
     \<lparr>supplierId = ''sup1'', templateSupplierName = ''Acme Traders'',
      patterns = \<lparr>invoiceNumberFormat = Some ''INV'', dateFormats = [],
                  commonHSNCodes = [''9999''], commonItemNames = [''Gadget''],
                  avgItemCount = 10, avgTotalAmount = 100, gstType = IGST\<rparr>,
      statistics = \<lparr>totalInvoicesProcessed = 4, lastUpdated = 1740000000000,
                    accuracyRate = 75\<rparr>\<rparr>"

definition sampleStore :: templateStore where
  "sampleStore = \<lparr>cache = Map.empty, db = [''sup1'' \<mapsto> sampleTemplate]\<rparr>"

definition neverMatches :: "string \<Rightarrow> string \<Rightarrow> bool option" where
  \<comment> \<open>a runtime in which the pattern at hand does not match the number at hand\<close>
  "neverMatches p s = Some False"













definition oneRunning :: "unit invoiceQueue" where
  \<comment> \<open>the queue after a first upload\<close>
  "oneRunning =
     snd (addJob 1750000000000 ''k3x9f'' 1750000000001 ''/tmp/a.png'' ''a.png'' ''u1'' initialQueue)"

definition oneRunningOnePending :: "unit invoiceQueue" where
  \<comment> \<open>the queue after a second upload, five milliseconds later\<close>
  "oneRunningOnePending =
     snd (addJob 1750000000005 ''zzzzz'' 1750000000006 ''/tmp/b.png'' ''b.png'' ''u1'' oneRunning)"

section \<open>Properties of validateInvoiceData\<close>

subsection \<open>What each step leaves alone\<close>

lemma fc_push [simp]:
  "fc (pushError m a) = fc a" "fc (pushWarning m a) = fc a" "fc (pushSuggestion m a) = fc a"
  by (simp_all add: pushError_def pushWarning_def pushSuggestion_def)

lemma errs_push [simp]:
  "errs (pushError m a) = errs a @ [m]" "errs (pushWarning m a) = errs a"
  "errs (pushSuggestion m a) = errs a"
  by (simp_all add: pushError_def pushWarning_def pushSuggestion_def)

lemma warns_push [simp]:
  "warns (pushError m a) = warns a" "warns (pushWarning m a) = warns a @ [m]"
  "warns (pushSuggestion m a) = warns a"
  by (simp_all add: pushError_def pushWarning_def pushSuggestion_def)

lemma suggs_push [simp]:
  "suggs (pushError m a) = suggs a" "suggs (pushWarning m a) = suggs a"
  "suggs (pushSuggestion m a) = suggs a @ [m]"
  by (simp_all add: pushError_def pushWarning_def pushSuggestion_def)







lemma checkGST_fc: "fc (checkGST d a) = fc a"
  by (simp add: checkGST_def Let_def)

lemma checkGST_errs: "errs (checkGST d a) = errs a"
  by (simp add: checkGST_def Let_def)


lemma checkGSTIN_errs: "errs (checkGSTIN env d a) = errs a"
  by (simp add: checkGSTIN_def gstinMissing_def Let_def split: option.split)


lemma checkGSTIN_fc_others:
  "fcAmounts (fc (checkGSTIN env d a)) = fcAmounts (fc a)"
  "fcItems (fc (checkGSTIN env d a)) = fcItems (fc a)"
  by (simp_all add: checkGSTIN_def gstinMissing_def Let_def split: option.split)








subsection \<open>The field scores stay between 0 and 100\<close>







subsection \<open>The auto-approval gate\<close>

text \<open>
  C1. \<^verbatim>\<open>validateInvoiceData\<close> returns \<open>canAutoApprove = true\<close> exactly when the list of
  errors is empty, the aggregate confidence is at least 85, the extraction confidence of
  the record is at least 85, the amounts score is at least 90 and the items score is at
  least 80. In particular an auto-approved record has no error.
\<close>

theorem validate_canAutoApprove_iff:
  "(canAutoApprove (validateInvoiceData env d) \<longleftrightarrow>
      errors (validateInvoiceData env d) = [] \<and>
      confidenceScore (validateInvoiceData env d) \<ge> 85 \<and>
      confidence d \<ge> 85 \<and>
      fcAmounts (fieldConfidence (validateInvoiceData env d)) \<ge> 90 \<and>
      fcItems (fieldConfidence (validateInvoiceData env d)) \<ge> 80) \<and>
   (canAutoApprove (validateInvoiceData env d) \<longrightarrow> errors (validateInvoiceData env d) = [])"
  by (simp add: validateInvoiceData_def finish_def Let_def)

theorem validate_canAutoApprove_iff_witness:
  "canAutoApprove (validateInvoiceData sampleEnv sampleInvoice) \<and>
   errors (validateInvoiceData sampleEnv sampleInvoice) = [] \<and>
   \<not> canAutoApprove (validateInvoiceData sampleEnv noItemsInvoice) \<and>
   errors (validateInvoiceData sampleEnv noItemsInvoice) \<noteq> []"
proof -
  have ok: "errors (validateInvoiceData sampleEnv sampleInvoice) = [] \<and>
      confidenceScore (validateInvoiceData sampleEnv sampleInvoice) \<ge> 85 \<and>
      confidence sampleInvoice \<ge> 85 \<and>
      fcAmounts (fieldConfidence (validateInvoiceData sampleEnv sampleInvoice)) \<ge> 90 \<and>
      fcItems (fieldConfidence (validateInvoiceData sampleEnv sampleInvoice)) \<ge> 80"
    by code_simp
  have bad: "errors (validateInvoiceData sampleEnv noItemsInvoice) \<noteq> []"
    by code_simp
  from ok bad show ?thesis
    using validate_canAutoApprove_iff [of sampleEnv sampleInvoice]
      validate_canAutoApprove_iff [of sampleEnv noItemsInvoice]
    by blast
qed

subsection \<open>The aggregate confidence\<close>



subsection \<open>The amounts score\<close>


lemma finish_errors: "errors (finish d a) = errs a"
  by (simp add: finish_def Let_def)







subsection \<open>Records without line items\<close>

text \<open>
  C9. For a record whose list of line items is empty, \<^verbatim>\<open>validateInvoiceData\<close> reports
  the hard error "No line items found" and scores the items field 0, and the record is
  not auto-approved.
\<close>

theorem validate_no_items:
  assumes "items d = []"
  shows "[S ''No line items found''] \<in> set (errors (validateInvoiceData env d)) \<and>
         fcItems (fieldConfidence (validateInvoiceData env d)) = 0 \<and>
         \<not> canAutoApprove (validateInvoiceData env d)"
proof -
  let ?a = "checkAmounts d (checkSupplier d (checkDate env d (checkInvoiceNumber d initialAcc)))"
  let ?b = "checkGSTIN env d (checkGST d (checkItems d ?a))"
  from assms have i: "checkItems d ?a =
      (pushError [S ''No line items found''] ?a)\<lparr>fc := (fc ?a)\<lparr>fcItems := 0\<rparr>\<rparr>"
    by (simp add: checkItems_def)
  have e: "errs ?b = errs ?a @ [[S ''No line items found'']]"
    by (simp add: checkGSTIN_errs checkGST_errs i)
  have f: "fcItems (fc ?b) = 0"
    by (simp add: checkGSTIN_fc_others checkGST_fc i)
  have r: "validateInvoiceData env d = finish d ?b"
    by (simp add: validateInvoiceData_def)
  have "errors (finish d ?b) = errs ?b" by (rule finish_errors)
  moreover have "fieldConfidence (finish d ?b) = fc ?b"
    by (simp add: finish_def Let_def)
  moreover have "\<not> canAutoApprove (finish d ?b)"
    using f by (simp add: finish_def Let_def)
  ultimately show ?thesis
    using e f unfolding r by simp
qed

theorem validate_no_items_witness:
  "items noItemsInvoice = [] \<and>
   [S ''No line items found''] \<in> set (errors (validateInvoiceData sampleEnv noItemsInvoice)) \<and>
   fcItems (fieldConfidence (validateInvoiceData sampleEnv noItemsInvoice)) = 0 \<and>
   \<not> canAutoApprove (validateInvoiceData sampleEnv noItemsInvoice)"
proof -
  have h: "items noItemsInvoice = []" by code_simp
  from h validate_no_items [OF h, of sampleEnv] show ?thesis by simp
qed

subsection \<open>What the result depends on\<close>

lemma sameVerdict_refl: "sameVerdict a a"
  by (simp add: sameVerdict_def)

lemma sameVerdict_checkInvoiceNumber:
  "sameVerdict a b \<Longrightarrow> sameVerdict (checkInvoiceNumber d a) (checkInvoiceNumber d b)"
  by (simp add: sameVerdict_def checkInvoiceNumber_def)

lemma sameVerdict_checkDate:
  assumes "sameVerdict a b"
    and "(parseDate e1 (invoiceDate d) = None) = (parseDate e2 (invoiceDate d) = None)"
  shows "sameVerdict (checkDate e1 d a) (checkDate e2 d b)"
  using assms by (auto simp: sameVerdict_def checkDate_def split: option.splits)

lemma sameVerdict_checkSupplier:
  "sameVerdict a b \<Longrightarrow> sameVerdict (checkSupplier d a) (checkSupplier d b)"
  by (simp add: sameVerdict_def checkSupplier_def)

lemma sameVerdict_checkAmounts:
  "sameVerdict a b \<Longrightarrow> sameVerdict (checkAmounts d a) (checkAmounts d b)"
  by (simp add: sameVerdict_def checkAmounts_def Let_def)

lemma checkItem_deduct:
  "checkItem n i st =
     deduct (\<bar>quantity i * unitPrice i - amount i\<bar> > 1)
       (pushWarning [S ''Item '', Idx (n + 1), S '': Amount calculation mismatch'']) 10
     (deduct (hsnCode i = None \<or> hsnCode i = Some [])
       (pushWarning [S ''Item '', Idx (n + 1), S '': HSN code missing'']) 5
     (deduct (unitPrice i = 0 \<or> unitPrice i < 0)
       (pushError [S ''Item '', Idx (n + 1), S '': Invalid unit price'']) 15
     (deduct (quantity i = 0 \<or> quantity i \<le> 0)
       (pushError [S ''Item '', Idx (n + 1), S '': Invalid quantity'']) 15
     (deduct (name i = [])
       (pushError [S ''Item '', Idx (n + 1), S '': Name is missing'']) 20 st))))"
  unfolding checkItem_def Let_def deduct_def by (rule refl)

lemma sameVerdict_deduct_error:
  assumes "sameVerdict (fst s) (fst t)" and "snd s = snd t"
  shows "sameVerdict (fst (deduct c (pushError m) k s)) (fst (deduct c (pushError m) k t)) \<and>
         snd (deduct c (pushError m) k s) = snd (deduct c (pushError m) k t)"
  using assms by (simp add: sameVerdict_def deduct_def pushError_def)

lemma sameVerdict_deduct_warning:
  assumes "sameVerdict (fst s) (fst t)" and "snd s = snd t"
  shows "sameVerdict (fst (deduct c (pushWarning m) k s)) (fst (deduct c (pushWarning m) k t)) \<and>
         snd (deduct c (pushWarning m) k s) = snd (deduct c (pushWarning m) k t)"
  using assms by (simp add: sameVerdict_def deduct_def pushWarning_def)

lemma sameVerdict_checkItem:
  assumes "sameVerdict (fst s) (fst t)" and "snd s = snd t"
  shows "sameVerdict (fst (checkItem n i s)) (fst (checkItem n i t)) \<and>
         snd (checkItem n i s) = snd (checkItem n i t)"
proof -
  note a = sameVerdict_deduct_error [OF assms, of "name i = []"
      "[S ''Item '', Idx (n + 1), S '': Name is missing'']" 20]
  note b = sameVerdict_deduct_error [OF conjunct1 [OF a] conjunct2 [OF a],
      of "quantity i = 0 \<or> quantity i \<le> 0" "[S ''Item '', Idx (n + 1), S '': Invalid quantity'']" 15]
  note c = sameVerdict_deduct_error [OF conjunct1 [OF b] conjunct2 [OF b],
      of "unitPrice i = 0 \<or> unitPrice i < 0" "[S ''Item '', Idx (n + 1), S '': Invalid unit price'']" 15]
  note d = sameVerdict_deduct_warning [OF conjunct1 [OF c] conjunct2 [OF c],
      of "hsnCode i = None \<or> hsnCode i = Some []" "[S ''Item '', Idx (n + 1), S '': HSN code missing'']" 5]
  note e = sameVerdict_deduct_warning [OF conjunct1 [OF d] conjunct2 [OF d],
      of "\<bar>quantity i * unitPrice i - amount i\<bar> > 1"
         "[S ''Item '', Idx (n + 1), S '': Amount calculation mismatch'']" 10]
  show ?thesis unfolding checkItem_deduct by (rule e)
qed

lemma sameVerdict_checkItemsFrom:
  assumes "sameVerdict (fst s) (fst t)" and "snd s = snd t"
  shows "sameVerdict (fst (checkItemsFrom n is s)) (fst (checkItemsFrom n is t)) \<and>
         snd (checkItemsFrom n is s) = snd (checkItemsFrom n is t)"
  using assms
proof (induction "is" arbitrary: n s t)
  case Nil
  then show ?case by simp
next
  case (Cons i "is")
  from sameVerdict_checkItem [OF Cons.prems, of n i]
  show ?case by (simp add: Cons.IH)
qed

lemma sameVerdict_checkItems:
  assumes "sameVerdict a b"
  shows "sameVerdict (checkItems d a) (checkItems d b)"
proof (cases "items d = []")
  case True
  with assms show ?thesis by (simp add: checkItems_def sameVerdict_def)
next
  case False
  from assms have "sameVerdict (fst (a, 100::int)) (fst (b, 100::int))" by simp
  from sameVerdict_checkItemsFrom [OF this, of 0 "items d"] False
  show ?thesis by (simp add: checkItems_def sameVerdict_def case_prod_beta)
qed

lemma sameVerdict_checkGST:
  "sameVerdict a b \<Longrightarrow> sameVerdict (checkGST d a) (checkGST d b)"
  by (simp add: sameVerdict_def checkGST_def Let_def)

lemma sameVerdict_checkGSTIN:
  "sameVerdict a b \<Longrightarrow> sameVerdict (checkGSTIN e1 d a) (checkGSTIN e2 d b)"
  by (simp add: sameVerdict_def checkGSTIN_def gstinMissing_def Let_def split: option.split)

lemma sameVerdict_finish:
  assumes "sameVerdict a b"
  shows "errors (finish d a) = errors (finish d b) \<and>
         suggestions (finish d a) = suggestions (finish d b) \<and>
         valid (finish d a) = valid (finish d b) \<and>
         canAutoApprove (finish d a) = canAutoApprove (finish d b) \<and>
         confidenceScore (finish d a) = confidenceScore (finish d b) \<and>
         fieldConfidence (finish d a) = fieldConfidence (finish d b)"
  using assms by (simp add: sameVerdict_def finish_def Let_def)

text \<open>
  C3, as the code has it. \<^verbatim>\<open>validateInvoiceData\<close> reads the clock and the environment
  variable \<^verbatim>\<open>COMPANY_STATE_CODE\<close>, so its result is a function of the record together
  with these. They reach the warnings only: two evaluations on the same record, at
  any two times and under any two values of the variable, return the same errors,
  suggestions, validity, auto-approval decision, aggregate confidence and field scores,
  provided the runtime accepts the record's date string in both or in neither.
\<close>

theorem validate_verdict_independent_of_environment:
  assumes "(parseDate e1 (invoiceDate d) = None) = (parseDate e2 (invoiceDate d) = None)"
  shows "errors (validateInvoiceData e1 d) = errors (validateInvoiceData e2 d) \<and>
         suggestions (validateInvoiceData e1 d) = suggestions (validateInvoiceData e2 d) \<and>
         valid (validateInvoiceData e1 d) = valid (validateInvoiceData e2 d) \<and>
         canAutoApprove (validateInvoiceData e1 d) = canAutoApprove (validateInvoiceData e2 d) \<and>
         confidenceScore (validateInvoiceData e1 d) = confidenceScore (validateInvoiceData e2 d) \<and>
         fieldConfidence (validateInvoiceData e1 d) = fieldConfidence (validateInvoiceData e2 d)"
proof -
  have "sameVerdict (checkInvoiceNumber d initialAcc) (checkInvoiceNumber d initialAcc)"
    by (rule sameVerdict_refl)
  then have "sameVerdict (checkDate e1 d (checkInvoiceNumber d initialAcc))
                         (checkDate e2 d (checkInvoiceNumber d initialAcc))"
    using assms by (rule sameVerdict_checkDate)
  then have "sameVerdict
      (checkGSTIN e1 d (checkGST d (checkItems d (checkAmounts d (checkSupplier d
         (checkDate e1 d (checkInvoiceNumber d initialAcc)))))))
      (checkGSTIN e2 d (checkGST d (checkItems d (checkAmounts d (checkSupplier d
         (checkDate e2 d (checkInvoiceNumber d initialAcc)))))))"
    by (intro sameVerdict_checkGSTIN sameVerdict_checkGST sameVerdict_checkItems
          sameVerdict_checkAmounts sameVerdict_checkSupplier)
  then show ?thesis
    unfolding validateInvoiceData_def by (rule sameVerdict_finish)
qed

theorem validate_verdict_independent_of_environment_witness:
  "(parseDate sampleEnv (invoiceDate sampleInvoice) = None) =
     (parseDate laterEnv (invoiceDate sampleInvoice) = None) \<and>
   errors (validateInvoiceData sampleEnv sampleInvoice) =
     errors (validateInvoiceData laterEnv sampleInvoice) \<and>
   canAutoApprove (validateInvoiceData sampleEnv sampleInvoice) =
     canAutoApprove (validateInvoiceData laterEnv sampleInvoice) \<and>
   confidenceScore (validateInvoiceData sampleEnv sampleInvoice) =
     confidenceScore (validateInvoiceData laterEnv sampleInvoice)"
proof -
  have h: "(parseDate sampleEnv (invoiceDate sampleInvoice) = None) =
     (parseDate laterEnv (invoiceDate sampleInvoice) = None)"
    by code_simp
  from h validate_verdict_independent_of_environment [OF h] show ?thesis by simp
qed

theorem validate_pure_counterexample:
  "validateInvoiceData sampleEnv sampleInvoice \<noteq> validateInvoiceData laterEnv sampleInvoice \<and>
   validateInvoiceData sampleEnv interStateInvoice \<noteq>
     validateInvoiceData (sampleEnv\<lparr>companyStateCode := Some ''27''\<rparr>) interStateInvoice"
proof -
  have "warnings (validateInvoiceData sampleEnv sampleInvoice) \<noteq>
        warnings (validateInvoiceData laterEnv sampleInvoice)"
    by code_simp
  moreover have "warnings (validateInvoiceData sampleEnv interStateInvoice) \<noteq>
        warnings (validateInvoiceData (sampleEnv\<lparr>companyStateCode := Some ''27''\<rparr>) interStateInvoice)"
    by code_simp
  ultimately show ?thesis by metis
qed

section \<open>Properties of the template service\<close>

subsection \<open>The store\<close>


lemma getTemplate_saveTemplate_other:
  "sid' \<noteq> sid \<Longrightarrow> fst (getTemplate (saveTemplate st sid t) sid') = fst (getTemplate st sid')"
  by (simp add: getTemplate_def saveTemplate_def split: option.split)

lemma getTemplate_idem: "fst (getTemplate (snd (getTemplate st sid)) sid') = fst (getTemplate st sid')"
  by (simp add: getTemplate_def split: option.split)



subsection \<open>The match score\<close>

lemma anomaly_score: "matchScore (anomaly m k a) = matchScore a - k"
  by (simp add: anomaly_def)

lemma suggest_score: "matchScore (suggest m a) = matchScore a"
  by (simp add: suggest_def)

lemma checkNumberFormat_score:
  "checkNumberFormat rt t d a = Inr b \<Longrightarrow> matchScore a - 10 \<le> matchScore b \<and> matchScore b \<le> matchScore a"
  by (auto simp: checkNumberFormat_def anomaly_score split: option.splits if_splits)

lemma checkItemCount_score:
  "matchScore a - 5 \<le> matchScore (checkItemCount t d a) \<and> matchScore (checkItemCount t d a) \<le> matchScore a"
  by (simp add: checkItemCount_def Let_def anomaly_score)

lemma checkTotalAmount_score:
  "matchScore a - 15 \<le> matchScore (checkTotalAmount t d a) \<and>
   matchScore (checkTotalAmount t d a) \<le> matchScore a"
  by (simp add: checkTotalAmount_def anomaly_score suggest_score)

lemma checkGSTType_score:
  "matchScore a - 10 \<le> matchScore (checkGSTType t d a) \<and> matchScore (checkGSTType t d a) \<le> matchScore a"
  by (simp add: checkGSTType_def Let_def anomaly_score suggest_score)

lemma checkHSNCodes_score:
  "matchScore a - 10 \<le> matchScore (checkHSNCodes t d a) \<and> matchScore (checkHSNCodes t d a) \<le> matchScore a"
  by (simp add: checkHSNCodes_def Let_def anomaly_score suggest_score)

lemma checkItemNames_score:
  "matchScore a - 15 \<le> matchScore (checkItemNames t d a) \<and>
   matchScore (checkItemNames t d a) \<le> matchScore a"
  by (simp add: checkItemNames_def Let_def anomaly_score)

lemma templateSuggestions_score: "matchScore (templateSuggestions t a) = matchScore a"
  by (simp add: templateSuggestions_def Let_def suggest_score)

lemma matchChecks_score:
  assumes "matchChecks rt t d = Inr a"
  shows "100 - (10 + 5 + 15 + 10 + 10 + 15) \<le> matchScore a \<and> matchScore a \<le> 100"
proof -
  from assms obtain a0 where
    a0: "checkNumberFormat rt t d \<lparr>anoms = [], msuggs = [], matchScore = 100\<rparr> = Inr a0"
    and a: "a = templateSuggestions t (checkItemNames t d (checkHSNCodes t d (checkGSTType t d
              (checkTotalAmount t d (checkItemCount t d a0)))))"
    by (auto simp: matchChecks_def split: sum.splits)
  let ?a1 = "checkItemCount t d a0"
  let ?a2 = "checkTotalAmount t d ?a1"
  let ?a3 = "checkGSTType t d ?a2"
  let ?a4 = "checkHSNCodes t d ?a3"
  let ?a5 = "checkItemNames t d ?a4"
  from checkNumberFormat_score [OF a0] have "90 \<le> matchScore a0 \<and> matchScore a0 \<le> 100" by simp
  with checkItemCount_score [of a0 t d] have "85 \<le> matchScore ?a1 \<and> matchScore ?a1 \<le> 100" by linarith
  with checkTotalAmount_score [of ?a1 t d] have "70 \<le> matchScore ?a2 \<and> matchScore ?a2 \<le> 100" by linarith
  with checkGSTType_score [of ?a2 t d] have "60 \<le> matchScore ?a3 \<and> matchScore ?a3 \<le> 100" by linarith
  with checkHSNCodes_score [of ?a3 t d] have "50 \<le> matchScore ?a4 \<and> matchScore ?a4 \<le> 100" by linarith
  with checkItemNames_score [of ?a4 t d] have "35 \<le> matchScore ?a5 \<and> matchScore ?a5 \<le> 100" by linarith
  then show ?thesis by (simp add: a templateSuggestions_score)
qed

text \<open>
  C10. The confidence that \<^verbatim>\<open>validateAgainstTemplate\<close> returns lies between 35 and
  100. Without a template it is 50. With a template it is the score itself: the six
  penalties 10, 5, 15, 10, 10 and 15 take at most 65 from the start score of 100, so the
  clamp to the range from 0 to 100 changes nothing.
\<close>

theorem validateAgainstTemplate_confidence:
  assumes "fst (validateAgainstTemplate rt st d sid) = Inr r"
  shows "35 \<le> matchConfidence r \<and> matchConfidence r \<le> 100 \<and>
         (fst (getTemplate st sid) = None \<longrightarrow> matchConfidence r = 50) \<and>
         (\<forall>t. fst (getTemplate st sid) = Some t \<longrightarrow>
            (\<exists>a. matchChecks rt t d = Inr a \<and> matchConfidence r = matchScore a \<and>
                 100 - (10 + 5 + 15 + 10 + 10 + 15) \<le> matchScore a \<and> matchScore a \<le> 100))"
proof (cases "fst (getTemplate st sid)")
  case None
  with assms have "matchConfidence r = 50"
    by (auto simp: validateAgainstTemplate_def split: prod.splits)
  with None show ?thesis by simp
next
  case (Some t)
  with assms obtain a where a: "matchChecks rt t d = Inr a"
    and r: "matchConfidence r = max 0 (min 100 (matchScore a))"
    by (auto simp: validateAgainstTemplate_def split: prod.splits sum.splits)
  from matchChecks_score [OF a] r have "matchConfidence r = matchScore a" by simp
  with matchChecks_score [OF a] a Some show ?thesis by simp
qed

theorem validateAgainstTemplate_confidence_witness:
  "fst (validateAgainstTemplate neverMatches sampleStore sampleInvoice ''sup1'') =
     Inr (projr (fst (validateAgainstTemplate neverMatches sampleStore sampleInvoice ''sup1''))) \<and>
   matchConfidence (projr (fst (validateAgainstTemplate neverMatches sampleStore sampleInvoice ''sup1''))) = 35 \<and>
   35 \<le> matchConfidence (projr (fst (validateAgainstTemplate neverMatches sampleStore sampleInvoice ''sup1'')))"
proof -
  have h: "fst (validateAgainstTemplate neverMatches sampleStore sampleInvoice ''sup1'') =
     Inr (projr (fst (validateAgainstTemplate neverMatches sampleStore sampleInvoice ''sup1'')))"
    by code_simp
  have v: "matchConfidence (projr (fst (validateAgainstTemplate neverMatches sampleStore sampleInvoice ''sup1''))) = 35"
    by code_simp
  from h v validateAgainstTemplate_confidence [OF h] show ?thesis by blast
qed

subsection \<open>Moving averages\<close>







subsection \<open>The lists of common values\<close>





























section \<open>Properties of the invoice queue\<close>

subsection \<open>Looking a job up\<close>

lemma findJobIndex_Some:
  assumes "findJobIndex q jid = Some i"
  shows "i < length (queue q) \<and> getJob q jid = Some (queue q ! i) \<and> jobId (queue q ! i) = jid \<and>
         (\<forall>k<i. jobId (queue q ! k) \<noteq> jid)"
proof -
  from assms have f: "find (\<lambda>i. jobId (queue q ! i) = jid) [0..<length (queue q)] = Some i"
    by (simp add: findJobIndex_def)
  then obtain n where n: "n < length [0..<length (queue q)]"
    "jobId (queue q ! ([0..<length (queue q)] ! n)) = jid"
    "i = [0..<length (queue q)] ! n"
    "\<forall>k<n. jobId (queue q ! ([0..<length (queue q)] ! k)) \<noteq> jid"
    unfolding find_Some_iff by blast
  from n have i: "i = n" "i < length (queue q)" by simp_all
  with n have hit: "jobId (queue q ! i) = jid" and first: "\<forall>k<i. jobId (queue q ! k) \<noteq> jid"
    by simp_all
  from i hit first have "find (\<lambda>j. jobId j = jid) (queue q) = Some (queue q ! i)"
    unfolding find_Some_iff by blast
  with i hit first show ?thesis by (simp add: getJob_def)
qed

lemma findJobIndex_None:
  assumes "findJobIndex q jid = None"
  shows "getJob q jid = None"
proof -
  from assms have "\<forall>i<length (queue q). jobId (queue q ! i) \<noteq> jid"
    by (auto simp: findJobIndex_def find_None_iff)
  then have "\<forall>j\<in>set (queue q). jobId j \<noteq> jid"
    by (auto simp: in_set_conv_nth)
  then show ?thesis by (simp add: getJob_def find_None_iff)
qed

lemma getJob_update:
  assumes "findJobIndex q jid = Some i" and "jobId j' = jid"
  shows "getJob (q\<lparr>queue := (queue q)[i := j'], deletedFiles := fs\<rparr>) jid = Some j'"
proof -
  from findJobIndex_Some [OF assms(1)]
  have i: "i < length (queue q)" and first: "\<forall>k<i. jobId (queue q ! k) \<noteq> jid" by simp_all
  let ?xs = "(queue q)[i := j']"
  have "i < length ?xs" using i by simp
  moreover have "jobId (?xs ! i) = jid" using i assms(2) by simp
  moreover have "\<forall>k<i. \<not> jobId (?xs ! k) = jid" using first by simp
  ultimately have "find (\<lambda>j. jobId j = jid) ?xs = Some (?xs ! i)"
    unfolding find_Some_iff by blast
  then show ?thesis using i by (simp add: getJob_def)
qed

subsection \<open>Cancelling\<close>

text \<open>
  C8, as the code has it. \<^verbatim>\<open>cancelJob\<close> returns true exactly when a job with the given
  id exists and is PENDING. That job then becomes FAILED with the error
  "Cancelled by user" and a completion time, its progress and result stay as they were,
  and its file is handed to \<^verbatim>\<open>deleteFile\<close>. For a job in any other status, PROCESSING
  in particular, the call returns false and changes nothing; so it does for an unknown id.
\<close>

theorem cancelJob_pending_only:
  "(fst (cancelJob now jid q) \<longleftrightarrow> (\<exists>j. getJob q jid = Some j \<and> status j = PENDING)) \<and>
   (\<forall>j. getJob q jid = Some j \<and> status j = PENDING \<longrightarrow>
      getJob (snd (cancelJob now jid q)) jid =
        Some (j\<lparr>status := FAILED, error := Some ''Cancelled by user'', completedAt := Some now\<rparr>) \<and>
      deletedFiles (snd (cancelJob now jid q)) = deletedFiles q @ [filePath j] \<and>
      length (queue (snd (cancelJob now jid q))) = length (queue q) \<and>
      processing (snd (cancelJob now jid q)) = processing q \<and>
      activeJobs (snd (cancelJob now jid q)) = activeJobs q) \<and>
   (\<forall>j. getJob q jid = Some j \<and> status j \<noteq> PENDING \<longrightarrow> cancelJob now jid q = (False, q)) \<and>
   (getJob q jid = None \<longrightarrow> cancelJob now jid q = (False, q))"
proof (cases "findJobIndex q jid")
  case None
  then have "getJob q jid = None" by (rule findJobIndex_None)
  with None show ?thesis by (simp add: cancelJob_def)
next
  case (Some i)
  note idx = findJobIndex_Some [OF Some]
  let ?j = "queue q ! i"
  from idx have g: "getJob q jid = Some ?j" by simp
  show ?thesis
  proof (cases "status ?j = PENDING")
    case False
    with Some g show ?thesis by (simp add: cancelJob_def)
  next
    case True
    let ?j' = "?j\<lparr>status := FAILED, error := Some ''Cancelled by user'', completedAt := Some now\<rparr>"
    have c: "cancelJob now jid q =
        (True, q\<lparr>queue := (queue q)[i := ?j'], deletedFiles := deletedFiles q @ [filePath ?j]\<rparr>)"
      using Some True by (simp add: cancelJob_def Let_def)
    have "jobId ?j' = jid" using idx by simp
    with Some have "getJob (q\<lparr>queue := (queue q)[i := ?j'],
        deletedFiles := deletedFiles q @ [filePath ?j]\<rparr>) jid = Some ?j'"
      by (rule getJob_update)
    with c g True show ?thesis by simp
  qed
qed

theorem cancelJob_pending_only_witness:
  "getJob oneRunningOnePending ''job_1750000000005_zzzzz'' =
     Some (the (getJob oneRunningOnePending ''job_1750000000005_zzzzz'')) \<and>
   status (the (getJob oneRunningOnePending ''job_1750000000005_zzzzz'')) = PENDING \<and>
   fst (cancelJob 1750000000010 ''job_1750000000005_zzzzz'' oneRunningOnePending) \<and>
   deletedFiles (snd (cancelJob 1750000000010 ''job_1750000000005_zzzzz'' oneRunningOnePending)) =
     deletedFiles oneRunningOnePending @
       [filePath (the (getJob oneRunningOnePending ''job_1750000000005_zzzzz''))] \<and>
   getJob oneRunningOnePending ''job_1750000000000_k3x9f'' =
     Some (the (getJob oneRunningOnePending ''job_1750000000000_k3x9f'')) \<and>
   status (the (getJob oneRunningOnePending ''job_1750000000000_k3x9f'')) = PROCESSING \<and>
   cancelJob 1750000000010 ''job_1750000000000_k3x9f'' oneRunningOnePending =
     (False, oneRunningOnePending)"
proof -
  have a: "getJob oneRunningOnePending ''job_1750000000005_zzzzz'' =
     Some (the (getJob oneRunningOnePending ''job_1750000000005_zzzzz'')) \<and>
     status (the (getJob oneRunningOnePending ''job_1750000000005_zzzzz'')) = PENDING"
    by code_simp
  have b: "getJob oneRunningOnePending ''job_1750000000000_k3x9f'' =
     Some (the (getJob oneRunningOnePending ''job_1750000000000_k3x9f'')) \<and>
     status (the (getJob oneRunningOnePending ''job_1750000000000_k3x9f'')) = PROCESSING"
    by code_simp
  from b have b': "status (the (getJob oneRunningOnePending ''job_1750000000000_k3x9f'')) \<noteq> PENDING"
    by simp
  from a b b'
    cancelJob_pending_only [of 1750000000010 "''job_1750000000005_zzzzz''" oneRunningOnePending]
    cancelJob_pending_only [of 1750000000010 "''job_1750000000000_k3x9f''" oneRunningOnePending]
  show ?thesis by blast
qed

theorem cancelJob_reason_counterexample:
  "map_option status (getJob oneRunningOnePending ''job_1750000000005_zzzzz'') = Some PENDING \<and>
   fst (cancelJob 1750000000010 ''job_1750000000005_zzzzz'' oneRunningOnePending) \<and>
   map_option error
     (getJob (snd (cancelJob 1750000000010 ''job_1750000000005_zzzzz'' oneRunningOnePending))
        ''job_1750000000005_zzzzz'') = Some (Some ''Cancelled by user'') \<and>
   map_option error
     (getJob (snd (cancelJob 1750000000010 ''job_1750000000005_zzzzz'' oneRunningOnePending))
        ''job_1750000000005_zzzzz'') \<noteq> Some (Some ''cancelled'')"
  by code_simp

subsection \<open>Submitting\<close>












end
